theory Spec2Isabelle
  imports Complex_Main
begin

section \<open>The Keras NCF driver \<^verbatim>\<open>official/recommendation/keras_ncf_main.py\<close>\<close>

text \<open>
  The driver is glue code: it reads flags, asks sibling modules for a data producer, builds
  a Keras model around the NeuMF base model, compiles it and calls \<^verbatim>\<open>fit\<close>.
  The embedding keeps three things apart.
  \<^item> What the driver itself computes (integer arithmetic on batch counts, dictionary
    updates, branching on flags, assertions) is computed by the model.
  \<^item> What a sibling module or the framework returns is either read from an environment
    record (\<open>env\<close>: tables, constants and the objects the library hands back) or kept
    as a symbolic term (a layer graph, an optimizer, a dataset expression).
  \<^item> Every call the driver makes for its effect is recorded, in order, as an event of
    the run's trace; an exception the driver itself can raise ends the run with \<open>Inl\<close>.
  Exceptions raised inside the library calls are outside the model.
\<close>

subsection \<open>Python integers, dictionaries, attributes\<close>

datatype error =
    AssertionError
  | ZeroDivisionError
  | KeyError string
  | AttributeError string
  | ValueError

text \<open>\<^verbatim>\<open>a // b\<close> and \<^verbatim>\<open>a % b\<close> on Python ints: floor division, the remainder
  has the divisor's sign (as \<open>div\<close> and \<open>mod\<close> on \<open>int\<close>), and a zero divisor raises.\<close>

definition py_floordiv :: "int \<Rightarrow> int \<Rightarrow> error + int" where
  "py_floordiv a b = (if b = 0 then Inl ZeroDivisionError else Inr (a div b))"

definition py_mod :: "int \<Rightarrow> int \<Rightarrow> error + int" where
  "py_mod a b = (if b = 0 then Inl ZeroDivisionError else Inr (a mod b))"

text \<open>A dict with string keys, in insertion order. \<^verbatim>\<open>d[k]\<close> raises KeyError on a
  missing key; \<^verbatim>\<open>d[k] = v\<close> overwrites in place or appends.\<close>

type_synonym 'v dict = "(string \<times> 'v) list"

definition getitem :: "'v dict \<Rightarrow> string \<Rightarrow> error + 'v" where
  "getitem d k = (case map_of d k of None \<Rightarrow> Inl (KeyError k) | Some v \<Rightarrow> Inr v)"

fun setitem :: "'v dict \<Rightarrow> string \<Rightarrow> 'v \<Rightarrow> 'v dict" where
  "setitem [] k v = [(k, v)]"
| "setitem ((k', v') # d) k v =
     (if k' = k then (k', v) # d else (k', v') # setitem d k v)"

text \<open>Reading an attribute an object may not have: \<open>None\<close> is the missing attribute.\<close>

definition getattr :: "string \<Rightarrow> 'a option \<Rightarrow> error + 'a" where
  "getattr name a = (case a of None \<Rightarrow> Inl (AttributeError name) | Some v \<Rightarrow> Inr v)"

text \<open>The dictionary \<^verbatim>\<open>params\<close>: only its integer entries are read or written here.\<close>

type_synonym params = "int dict"

subsection \<open>Flags and the objects of the sibling modules\<close>

record flags =
  download_if_missing :: bool
  use_synthetic_data :: bool
  dataset :: string
  data_dir :: string
  seed :: "int option"
  train_epochs :: int
  epochs_between_evals :: int
  ml_perf :: bool
  batch_size :: int

text \<open>A data producer (\<^verbatim>\<open>data_pipeline\<close>): the driver reads two attributes of it, and
  either may be missing. \<open>producer_name\<close> only tells producers apart.\<close>

record producer =
  producer_name :: string
  train_batches_per_epoch :: "int option"
  eval_batches_per_epoch :: "int option"

text \<open>The dataset description: its attributes \<^verbatim>\<open>num_users\<close> and \<^verbatim>\<open>num_items\<close>.\<close>

record ncf_dataset =
  dataset_num_users :: int
  dataset_num_items :: int

subsection \<open>Symbolic Keras and TensorFlow objects\<close>

datatype dtype = Int32 | Float32

text \<open>\<^verbatim>\<open>tf.keras.layers.Input(shape=, batch_size=, name=, dtype=)\<close>.\<close>

datatype input_layer = Input "nat list" int string dtype

text \<open>The model \<^verbatim>\<open>neumf_model.construct_model_keras(user_input, item_input, params)\<close>
  returns: opaque.\<close>

datatype base_model = ConstructModelKeras input_layer input_layer params

text \<open>The function of the one \<^verbatim>\<open>Lambda\<close> layer of the file, \<^verbatim>\<open>lambda x: x * 0\<close>.\<close>

datatype lambda_fn = TimesZero

text \<open>Symbolic Keras tensors, all of rank 2 (batch, features): \<open>Call m ins\<close> is
  \<^verbatim>\<open>m(ins)\<close>, \<open>ConcatenateAxis1\<close> is \<^verbatim>\<open>Concatenate(axis=1)\<close>, \<open>Reshape n\<close> is
  \<^verbatim>\<open>Reshape(target_shape=(n,))\<close>.\<close>

datatype ktensor =
    Call base_model "input_layer list"
  | Lambda lambda_fn ktensor
  | ConcatenateAxis1 "ktensor list"
  | Reshape nat ktensor

text \<open>\<^verbatim>\<open>tf.keras.Model(inputs=, outputs=)\<close>.\<close>

datatype keras_model = Model "input_layer list" ktensor

text \<open>TensorFlow tensor expressions, as far as the loss builds them.\<close>

datatype texpr =
    Tensor string
  | TfCast texpr dtype
  | TfReshape texpr "int list"
  | SparseSoftmaxCrossEntropy texpr texpr

datatype optimizer = GetOptimizer params

datatype strategy = GetDistributionStrategy int

datatype input_fn = MakeInputFn producer bool bool

datatype tf_dataset =
    ApplyInputFn input_fn params
  | Repeat tf_dataset int

datatype callback = Callback string

datatype pyobj = PyStr string | PyInt int

text \<open>What the sibling modules hand back. \<open>output_dim\<close> is the static size of axis 1
  of the base model's output.\<close>

record env =
  parse_flags :: "flags \<Rightarrow> params"
  DATASET_TO_NUM_USERS_AND_ITEMS :: "(int \<times> int) dict"
  SYNTHETIC_BATCHES_PER_EPOCH :: int
  DummyConstructor :: producer
  instantiate_pipeline ::
    "string \<Rightarrow> string \<Rightarrow> int option \<Rightarrow> bool \<Rightarrow> bool \<Rightarrow> params \<Rightarrow> ncf_dataset \<times> producer"
  output_dim :: "base_model \<Rightarrow> nat"

subsection \<open>Runs: a trace of calls and a result\<close>

datatype event =
    Download string string
  | RandomSeed int
  | ProducerStart producer
  | ApplyClean
  | Summary keras_model
  | LoggingInfo string
  | Compile keras_model "texpr \<Rightarrow> texpr \<Rightarrow> texpr" optimizer "string list" "strategy option"
  | Print "pyobj list"
  | Fit keras_model tf_dataset int int "callback list" int

type_synonym 'a run = "event list \<times> (error + 'a)"

definition ret :: "'a \<Rightarrow> 'a run" where
  "ret x = ([], Inr x)"

definition emit :: "event \<Rightarrow> unit run" where
  "emit e = ([e], Inr ())"

definition lift :: "error + 'a \<Rightarrow> 'a run" where
  "lift r = ([], r)"

text \<open>Sequencing: an exception ends the run and keeps the calls made so far.\<close>

fun bnd :: "'a run \<Rightarrow> ('a \<Rightarrow> 'b run) \<Rightarrow> 'b run" where
  "bnd (t, Inl e) f = (t, Inl e)"
| "bnd (t, Inr x) f = (case f x of (t', r) \<Rightarrow> (t @ t', r))"

text \<open>\<^verbatim>\<open>assert c\<close>, with assertions enabled (the interpreter's default).\<close>

definition py_assert :: "bool \<Rightarrow> unit run" where
  "py_assert c = (if c then ret () else lift (Inl AssertionError))"

subsection \<open>\<^verbatim>\<open>_logitfy\<close> (lines 65--75)\<close>

text \<open>The static size of axis 1 of a symbolic tensor, \<^verbatim>\<open>t.shape[1].value\<close>.\<close>

fun static_dim1 :: "(base_model \<Rightarrow> nat) \<Rightarrow> ktensor \<Rightarrow> nat" where
  "static_dim1 od (Call m ins) = od m"
| "static_dim1 od (Lambda f t) = static_dim1 od t"
| "static_dim1 od (ConcatenateAxis1 ts) = sum_list (map (static_dim1 od) ts)"
| "static_dim1 od (Reshape n t) = n"

definition logitfy :: "(base_model \<Rightarrow> nat) \<Rightarrow> input_layer list \<Rightarrow> base_model \<Rightarrow> keras_model" where
  "logitfy od inputs base_model =
     (let logits = Call base_model inputs;
          zero_tensor = Lambda TimesZero logits;
          to_concatenate = [zero_tensor, logits];
          concat_layer = ConcatenateAxis1 to_concatenate;
          reshape_layer = Reshape (static_dim1 od concat_layer) concat_layer
      in Model inputs reshape_layer)"

subsection \<open>What the layers compute\<close>

text \<open>The logits are float32 values. A finite one is the real number it denotes (the two
  zeros are one value), the others are the two infinities and NaN. Multiplication follows
  IEEE 754 on the special values: NaN times anything and an infinity times zero are NaN.
  The rounding of a finite product is not modelled; the driver multiplies by zero only,
  which is exact.\<close>

datatype float32 = Finite real | PInf | NInf | NaN


instantiation float32 :: "{zero, times}"
begin

definition zero_float32 :: float32 where
  "zero_float32 = Finite 0"

fun times_float32 :: "float32 \<Rightarrow> float32 \<Rightarrow> float32" where
  "times_float32 NaN y = NaN"
| "times_float32 x NaN = NaN"
| "times_float32 (Finite a) (Finite b) = Finite (a * b)"
| "times_float32 (Finite a) PInf = (if a = 0 then NaN else if 0 < a then PInf else NInf)"
| "times_float32 (Finite a) NInf = (if a = 0 then NaN else if 0 < a then NInf else PInf)"
| "times_float32 PInf (Finite b) = (if b = 0 then NaN else if 0 < b then PInf else NInf)"
| "times_float32 NInf (Finite b) = (if b = 0 then NaN else if 0 < b then NInf else PInf)"
| "times_float32 PInf PInf = PInf"
| "times_float32 PInf NInf = NInf"
| "times_float32 NInf PInf = NInf"
| "times_float32 NInf NInf = PInf"

instance ..

end








subsection \<open>\<^verbatim>\<open>run_ncf\<close> (lines 78--161)\<close>

text \<open>The nested loss function of lines 130--139; it closes over \<^verbatim>\<open>FLAGS.batch_size\<close>.\<close>

definition softmax_crossentropy_with_logits :: "flags \<Rightarrow> texpr \<Rightarrow> texpr \<Rightarrow> texpr" where
  "softmax_crossentropy_with_logits F y_true y_pred =
     (let y_true = TfCast y_true Int32
      in SparseSoftmaxCrossEntropy
           (TfReshape y_true [batch_size F])
           (TfReshape y_pred [batch_size F, 2]))"

text \<open>\<^verbatim>\<open>producer.<attr> // params["batches_per_step"]\<close> and the same with \<^verbatim>\<open>%\<close>:
  the attribute is read first, then the dictionary, then the division is done.\<close>

definition attr_floordiv :: "string \<Rightarrow> int option \<Rightarrow> params \<Rightarrow> int run" where
  "attr_floordiv name a params =
     bnd (lift (getattr name a)) (\<lambda>n.
     bnd (lift (getitem params ''batches_per_step'')) (\<lambda>b.
     lift (py_floordiv n b)))"

definition attr_mod :: "string \<Rightarrow> int option \<Rightarrow> params \<Rightarrow> int run" where
  "attr_mod name a params =
     bnd (lift (getattr name a)) (\<lambda>n.
     bnd (lift (getitem params ''batches_per_step'')) (\<lambda>b.
     lift (py_mod n b)))"

text \<open>Lines 80--87: download, seeding, flag parsing, \<^verbatim>\<open>total_training_cycle\<close>.\<close>

definition run_ncf_setup :: "env \<Rightarrow> flags \<Rightarrow> (params \<times> int) run" where
  "run_ncf_setup E F =
     bnd (if download_if_missing F \<and> \<not> use_synthetic_data F
          then emit (Download (dataset F) (data_dir F)) else ret ()) (\<lambda>_.
     bnd (case seed F of None \<Rightarrow> ret () | Some s \<Rightarrow> emit (RandomSeed s)) (\<lambda>_.
     let params = parse_flags E F in
     bnd (lift (py_floordiv (train_epochs F) (epochs_between_evals F))) (\<lambda>total_training_cycle.
     ret (params, total_training_cycle))))"

text \<open>Lines 89--108: the producer and the step counts. The result is
  \<open>(producer, num_users, num_items, num_train_steps, num_eval_steps)\<close>.\<close>

definition run_ncf_data :: "env \<Rightarrow> flags \<Rightarrow> params \<Rightarrow> (producer \<times> int \<times> int \<times> int \<times> int) run" where
  "run_ncf_data E F params =
     (if use_synthetic_data F then
        let producer = DummyConstructor E in
        bnd (lift (getitem (DATASET_TO_NUM_USERS_AND_ITEMS E) (dataset F))) (\<lambda>(num_users, num_items).
        let num_train_steps = SYNTHETIC_BATCHES_PER_EPOCH E;
            num_eval_steps = SYNTHETIC_BATCHES_PER_EPOCH E
        in ret (producer, num_users, num_items, num_train_steps, num_eval_steps))
      else
        let (ncf_dataset, producer) =
              instantiate_pipeline E (dataset F) (data_dir F) None (ml_perf F)
                (seed F \<noteq> None) params;
            num_users = dataset_num_users ncf_dataset;
            num_items = dataset_num_items ncf_dataset
        in
        bnd (attr_floordiv ''train_batches_per_epoch'' (train_batches_per_epoch producer) params)
          (\<lambda>num_train_steps.
        bnd (attr_floordiv ''eval_batches_per_epoch'' (eval_batches_per_epoch producer) params)
          (\<lambda>num_eval_steps.
        bnd (attr_mod ''train_batches_per_epoch'' (train_batches_per_epoch producer) params)
          (\<lambda>r_train.
        bnd (py_assert (r_train = 0)) (\<lambda>_.
        bnd (attr_mod ''eval_batches_per_epoch'' (eval_batches_per_epoch producer) params)
          (\<lambda>r_eval.
        bnd (py_assert (r_eval = 0)) (\<lambda>_.
        ret (producer, num_users, num_items, num_train_steps, num_eval_steps))))))))"

text \<open>Lines 109--147: start the producer, complete \<^verbatim>\<open>params\<close>, build and compile
  the model. The result is \<open>(params, train_input_fn, keras_model)\<close>.\<close>

definition run_ncf_model ::
  "env \<Rightarrow> flags \<Rightarrow> producer \<Rightarrow> params \<Rightarrow> int \<Rightarrow> int \<Rightarrow> (params \<times> input_fn \<times> keras_model) run" where
  "run_ncf_model E F producer params num_users num_items =
     bnd (emit (ProducerStart producer)) (\<lambda>_.
     let params = setitem (setitem params ''num_users'' num_users) ''num_items'' num_items in
     bnd (emit ApplyClean) (\<lambda>_.
     let train_input_fn = MakeInputFn producer True False;
         user_input = Input [1] (batch_size F) ''user_id'' Int32;
         item_input = Input [1] (batch_size F) ''item_id'' Int32;
         base_model = ConstructModelKeras user_input item_input params;
         keras_model = logitfy (output_dim E) [user_input, item_input] base_model
     in
     bnd (emit (Summary keras_model)) (\<lambda>_.
     bnd (emit (LoggingInfo ''Using Keras instead of Estimator'')) (\<lambda>_.
     let opt = GetOptimizer params;
         strategy = GetDistributionStrategy 1
     in
     bnd (emit (Compile keras_model (softmax_crossentropy_with_logits F) opt
                  [''accuracy''] None)) (\<lambda>_.
     ret (params, train_input_fn, keras_model))))))"

text \<open>Lines 149--161: recompute \<^verbatim>\<open>num_train_steps\<close>, build the dataset, fit.\<close>

definition run_ncf_fit ::
  "flags \<Rightarrow> producer \<Rightarrow> params \<Rightarrow> input_fn \<Rightarrow> keras_model \<Rightarrow> unit run" where
  "run_ncf_fit F producer params train_input_fn keras_model =
     bnd (attr_floordiv ''train_batches_per_epoch'' (train_batches_per_epoch producer) params)
       (\<lambda>num_train_steps.
     bnd (emit (Print [PyStr ''>>>>>>>>>>> zhenzheng epochs: '', PyInt (train_epochs F)])) (\<lambda>_.
     let train_input_dataset = Repeat (ApplyInputFn train_input_fn params) (train_epochs F) in
     bnd (emit (Print [PyStr ''>>>>>>>>>>> zhenzheng before fit''])) (\<lambda>_.
     bnd (emit (Fit keras_model train_input_dataset (train_epochs F) num_train_steps [] 0)) (\<lambda>_.
     emit (Print [PyStr ''>>>>>>>>>>> zhenzheng done fit''])))))"

definition run_ncf :: "env \<Rightarrow> flags \<Rightarrow> unit run" where
  "run_ncf E F =
     bnd (run_ncf_setup E F) (\<lambda>(params, total_training_cycle).
     bnd (run_ncf_data E F params) (\<lambda>(producer, num_users, num_items, num_train_steps, num_eval_steps).
     bnd (run_ncf_model E F producer params num_users num_items) (\<lambda>(params, train_input_fn, keras_model).
     run_ncf_fit F producer params train_input_fn keras_model)))"

subsection \<open>Observing a trace\<close>

fun is_fit :: "event \<Rightarrow> bool" where
  "is_fit (Fit m d ep st cb vb) = True"
| "is_fit _ = False"

fun is_compile :: "event \<Rightarrow> bool" where
  "is_compile (Compile m l opt ms distr) = True"
| "is_compile _ = False"

fun is_download :: "event \<Rightarrow> bool" where
  "is_download (Download ds dd) = True"
| "is_download _ = False"

text \<open>The \<^verbatim>\<open>distribute=\<close> argument of a compile call.\<close>

fun compile_distribute :: "event \<Rightarrow> strategy option list" where
  "compile_distribute (Compile m l opt ms distr) = [distr]"
| "compile_distribute _ = []"

text \<open>The callee of a recorded call, as the source writes it.\<close>

fun event_name :: "event \<Rightarrow> string" where
  "event_name (Download ds dd) = ''movielens.download''"
| "event_name (RandomSeed s) = ''np.random.seed''"
| "event_name (ProducerStart p) = ''producer.start''"
| "event_name ApplyClean = ''model_helpers.apply_clean''"
| "event_name (Summary m) = ''keras_model.summary''"
| "event_name (LoggingInfo s) = ''tf.logging.info''"
| "event_name (Compile m l opt ms distr) = ''keras_model.compile''"
| "event_name (Print xs) = ''print''"
| "event_name (Fit m d ep st cb vb) = ''keras_model.fit''"

text \<open>The calls of a run, stage by stage: lines 80--84, lines 109--147 and lines 152--161.\<close>

definition setup_calls :: "flags \<Rightarrow> event list" where
  "setup_calls F =
     (if download_if_missing F \<and> \<not> use_synthetic_data F
      then [Download (dataset F) (data_dir F)] else [])
     @ (case seed F of None \<Rightarrow> [] | Some s \<Rightarrow> [RandomSeed s])"

definition built_model :: "env \<Rightarrow> flags \<Rightarrow> params \<Rightarrow> keras_model" where
  "built_model E F p =
     logitfy (output_dim E)
       [Input [1] (batch_size F) ''user_id'' Int32, Input [1] (batch_size F) ''item_id'' Int32]
       (ConstructModelKeras (Input [1] (batch_size F) ''user_id'' Int32)
          (Input [1] (batch_size F) ''item_id'' Int32) p)"

definition model_calls :: "env \<Rightarrow> flags \<Rightarrow> producer \<Rightarrow> params \<Rightarrow> event list" where
  "model_calls E F producer p =
     [ProducerStart producer, ApplyClean, Summary (built_model E F p),
      LoggingInfo ''Using Keras instead of Estimator'',
      Compile (built_model E F p) (softmax_crossentropy_with_logits F) (GetOptimizer p)
        [''accuracy''] None]"

definition fit_calls :: "env \<Rightarrow> flags \<Rightarrow> producer \<Rightarrow> params \<Rightarrow> int \<Rightarrow> event list" where
  "fit_calls E F producer p n =
     [Print [PyStr ''>>>>>>>>>>> zhenzheng epochs: '', PyInt (train_epochs F)],
      Print [PyStr ''>>>>>>>>>>> zhenzheng before fit''],
      Fit (built_model E F p)
        (Repeat (ApplyInputFn (MakeInputFn producer True False) p) (train_epochs F))
        (train_epochs F) n [] 0,
      Print [PyStr ''>>>>>>>>>>> zhenzheng done fit'']]"

subsection \<open>Example environments\<close>

text \<open>MovieLens 1M on real data: ten training and four evaluation batches per epoch, two
  batches per step.\<close>

definition example_parse_flags :: "flags \<Rightarrow> params" where
  "example_parse_flags F = [(''batch_size'', batch_size F), (''batches_per_step'', 2)]"

definition example_producer :: producer where
  "example_producer =
     \<lparr>producer_name = ''MaterializedDataConstructor'',
      train_batches_per_epoch = Some 10, eval_batches_per_epoch = Some 4\<rparr>"

definition example_dummy :: producer where
  "example_dummy =
     \<lparr>producer_name = ''DummyConstructor'',
      train_batches_per_epoch = Some 2000, eval_batches_per_epoch = Some 2000\<rparr>"

definition example_ncf_dataset :: ncf_dataset where
  "example_ncf_dataset = \<lparr>dataset_num_users = 6040, dataset_num_items = 3706\<rparr>"

definition example_env :: env where
  "example_env =
     \<lparr>parse_flags = example_parse_flags,
      DATASET_TO_NUM_USERS_AND_ITEMS =
        [(''ml-1m'', (6040, 3706)), (''ml-20m'', (138493, 26744))],
      SYNTHETIC_BATCHES_PER_EPOCH = 2000,
      DummyConstructor = example_dummy,
      instantiate_pipeline = (\<lambda>ds dd nr mp det p. (example_ncf_dataset, example_producer)),
      output_dim = (\<lambda>m. 1)\<rparr>"

definition example_flags :: flags where
  "example_flags =
     \<lparr>download_if_missing = True, use_synthetic_data = False, dataset = ''ml-1m'',
      data_dir = ''/tmp/movielens-data'', seed = Some 1, train_epochs = 2,
      epochs_between_evals = 1, ml_perf = False, batch_size = 4\<rparr>"

definition example_params :: params where
  "example_params =
     [(''batch_size'', 4), (''batches_per_step'', 2), (''num_users'', 6040), (''num_items'', 3706)]"

definition example_model :: keras_model where
  "example_model = built_model example_env example_flags example_params"

definition example_dataset :: tf_dataset where
  "example_dataset =
     Repeat (ApplyInputFn (MakeInputFn example_producer True False) example_params) 2"




text \<open>The same pipeline with three training batches per epoch: not a multiple of two.\<close>

definition odd_producer :: producer where
  "odd_producer =
     \<lparr>producer_name = ''MaterializedDataConstructor'',
      train_batches_per_epoch = Some 3, eval_batches_per_epoch = Some 4\<rparr>"

definition odd_env :: env where
  "odd_env =
     example_env\<lparr>instantiate_pipeline :=
       (\<lambda>ds dd nr mp det p. (example_ncf_dataset, odd_producer))\<rparr>"

text \<open>The example flags with synthetic data.\<close>

definition synthetic_flags :: flags where
  "synthetic_flags = example_flags\<lparr>use_synthetic_data := True\<rparr>"

section \<open>Properties\<close>

subsection \<open>Sequencing, dictionaries and the batch arithmetic\<close>

lemma bnd_emit [simp]: "bnd (emit e) f = (e # fst (f ()), snd (f ()))"
  by (simp add: emit_def split: prod.splits)

lemma bnd_ret [simp]: "bnd (ret x) f = f x"
  by (simp add: ret_def split: prod.splits)

lemma bnd_lift_Inl [simp]: "bnd (lift (Inl e)) f = ([], Inl e)"
  by (simp add: lift_def)

lemma bnd_lift_Inr [simp]: "bnd (lift (Inr x)) f = f x"
  by (simp add: lift_def split: prod.splits)

lemma bnd_no_calls: "fst m = [] \<Longrightarrow> bnd m f = (case snd m of Inl e \<Rightarrow> ([], Inl e) | Inr x \<Rightarrow> f x)"
  by (cases m; cases "snd m") (auto split: prod.splits)

lemma map_of_setitem: "map_of (setitem d k v) k' = (if k' = k then Some v else map_of d k')"
  by (induction d k v rule: setitem.induct) auto

lemma attr_floordiv_eq:
  "attr_floordiv name a params =
     ([], case a of None \<Rightarrow> Inl (AttributeError name)
          | Some n \<Rightarrow> (case map_of params ''batches_per_step'' of
              None \<Rightarrow> Inl (KeyError ''batches_per_step'')
            | Some b \<Rightarrow> if b = 0 then Inl ZeroDivisionError else Inr (n div b)))"
  by (auto simp: attr_floordiv_def getattr_def getitem_def py_floordiv_def lift_def
      split: option.splits)

lemma attr_mod_eq:
  "attr_mod name a params =
     ([], case a of None \<Rightarrow> Inl (AttributeError name)
          | Some n \<Rightarrow> (case map_of params ''batches_per_step'' of
              None \<Rightarrow> Inl (KeyError ''batches_per_step'')
            | Some b \<Rightarrow> if b = 0 then Inl ZeroDivisionError else Inr (n mod b)))"
  by (auto simp: attr_mod_def getattr_def getitem_def py_mod_def lift_def split: option.splits)

text \<open>Writing \<^verbatim>\<open>num_users\<close> and \<^verbatim>\<open>num_items\<close> leaves \<^verbatim>\<open>batches_per_step\<close> alone.\<close>

lemma attr_floordiv_num_users_items:
  "attr_floordiv name a (setitem (setitem d ''num_users'' nu) ''num_items'' ni) =
   attr_floordiv name a d"
  by (cases a) (simp_all add: attr_floordiv_eq map_of_setitem)

subsection \<open>The model \<^verbatim>\<open>_logitfy\<close> builds\<close>



subsection \<open>The stages of \<^verbatim>\<open>run_ncf\<close>\<close>

lemma run_ncf_setup_eq:
  "run_ncf_setup E F =
     (setup_calls F,
      if epochs_between_evals F = 0 then Inl ZeroDivisionError
      else Inr (parse_flags E F, train_epochs F div epochs_between_evals F))"
  by (auto simp: run_ncf_setup_def setup_calls_def py_floordiv_def Let_def ret_def
      split: option.splits)

lemma fst_run_ncf_data: "fst (run_ncf_data E F params) = []"
  by (auto simp: run_ncf_data_def attr_floordiv_eq attr_mod_eq bnd_no_calls py_assert_def
        ret_def lift_def getitem_def Let_def
      split: sum.splits prod.splits option.splits if_splits)

lemma run_ncf_model_eq:
  "run_ncf_model E F producer params nu ni =
     (model_calls E F producer (setitem (setitem params ''num_users'' nu) ''num_items'' ni),
      Inr (setitem (setitem params ''num_users'' nu) ''num_items'' ni,
           MakeInputFn producer True False,
           built_model E F (setitem (setitem params ''num_users'' nu) ''num_items'' ni)))"
  by (simp add: run_ncf_model_def model_calls_def built_model_def Let_def ret_def)

lemma run_ncf_fit_eq:
  "run_ncf_fit F producer p (MakeInputFn producer True False) (built_model E F p) =
     (case snd (attr_floordiv ''train_batches_per_epoch'' (train_batches_per_epoch producer) p) of
        Inl e \<Rightarrow> ([], Inl e)
      | Inr n \<Rightarrow> (fit_calls E F producer p n, Inr ()))"
  by (auto simp: run_ncf_fit_def fit_calls_def attr_floordiv_eq Let_def emit_def lift_def
      split: option.splits sum.splits)

text \<open>The three ways a run ends: before the producer is started, between the compile and the
  fit call, or after the last print.\<close>

lemma run_ncf_early:
  assumes "epochs_between_evals F = 0 \<and> e = ZeroDivisionError \<or>
           epochs_between_evals F \<noteq> 0 \<and> snd (run_ncf_data E F (parse_flags E F)) = Inl e"
  shows "run_ncf E F = (setup_calls F, Inl e)"
proof -
  have "run_ncf_data E F (parse_flags E F) = ([], snd (run_ncf_data E F (parse_flags E F)))"
    using fst_run_ncf_data [of E F "parse_flags E F"] by (cases "run_ncf_data E F (parse_flags E F)") simp
  with assms show ?thesis
    by (auto simp: run_ncf_def run_ncf_setup_eq)
qed

lemma run_ncf_late:
  assumes "epochs_between_evals F \<noteq> 0"
    and "snd (run_ncf_data E F (parse_flags E F)) = Inr (producer, nu, ni, n1, n2)"
    and "p = setitem (setitem (parse_flags E F) ''num_users'' nu) ''num_items'' ni"
  shows "run_ncf E F =
     (case snd (attr_floordiv ''train_batches_per_epoch'' (train_batches_per_epoch producer)
                  (parse_flags E F)) of
        Inl e \<Rightarrow> (setup_calls F @ model_calls E F producer p, Inl e)
      | Inr n \<Rightarrow> (setup_calls F @ model_calls E F producer p @ fit_calls E F producer p n, Inr ()))"
proof -
  have "run_ncf_data E F (parse_flags E F) = ([], Inr (producer, nu, ni, n1, n2))"
    using fst_run_ncf_data [of E F "parse_flags E F"] assms(2)
    by (cases "run_ncf_data E F (parse_flags E F)") simp
  with assms(1,3) show ?thesis
    by (simp add: run_ncf_def run_ncf_setup_eq run_ncf_model_eq run_ncf_fit_eq
          attr_floordiv_num_users_items split: sum.splits)
qed

lemma run_ncf_outcomes:
  obtains
    (early) e where "run_ncf E F = (setup_calls F, Inl e)"
  | (late) producer nu ni n1 n2 e where
      "snd (run_ncf_data E F (parse_flags E F)) = Inr (producer, nu, ni, n1, n2)"
      "run_ncf E F =
         (setup_calls F @ model_calls E F producer
            (setitem (setitem (parse_flags E F) ''num_users'' nu) ''num_items'' ni), Inl e)"
  | (finished) producer nu ni n1 n2 tb bps where
      "snd (run_ncf_data E F (parse_flags E F)) = Inr (producer, nu, ni, n1, n2)"
      "train_batches_per_epoch producer = Some tb"
      "map_of (parse_flags E F) ''batches_per_step'' = Some bps" "bps \<noteq> 0"
      "run_ncf E F =
         (setup_calls F
          @ model_calls E F producer
              (setitem (setitem (parse_flags E F) ''num_users'' nu) ''num_items'' ni)
          @ fit_calls E F producer
              (setitem (setitem (parse_flags E F) ''num_users'' nu) ''num_items'' ni)
              (tb div bps), Inr ())"
proof (cases "epochs_between_evals F = 0")
  case True
  then show ?thesis using early run_ncf_early by blast
next
  case nz: False
  show ?thesis
  proof (cases "snd (run_ncf_data E F (parse_flags E F))")
    case (Inl e)
    with nz show ?thesis using early run_ncf_early by blast
  next
    case (Inr loc)
    then obtain producer nu ni n1 n2
      where loc: "snd (run_ncf_data E F (parse_flags E F)) = Inr (producer, nu, ni, n1, n2)"
      by (cases loc) auto
    note run = run_ncf_late [OF nz loc refl]
    show ?thesis
    proof (cases "snd (attr_floordiv ''train_batches_per_epoch''
                    (train_batches_per_epoch producer) (parse_flags E F))")
      case (Inl e)
      with run loc show ?thesis using late by simp
    next
      case (Inr n)
      then obtain tb bps where "train_batches_per_epoch producer = Some tb"
        "map_of (parse_flags E F) ''batches_per_step'' = Some bps" "bps \<noteq> 0" "n = tb div bps"
        by (auto simp: attr_floordiv_eq split: option.splits if_splits)
      with run loc Inr show ?thesis using finished by simp
    qed
  qed
qed

subsection \<open>The example runs\<close>

lemma example_data:
  "run_ncf_data example_env example_flags (parse_flags example_env example_flags) =
     ([], Inr (example_producer, 6040, 3706, 5, 2))"
  by (simp add: run_ncf_data_def example_env_def example_flags_def example_parse_flags_def
        example_producer_def example_ncf_dataset_def attr_floordiv_eq attr_mod_eq py_assert_def
        ret_def)

lemma example_run:
  "run_ncf example_env example_flags =
     (setup_calls example_flags
      @ model_calls example_env example_flags example_producer example_params
      @ fit_calls example_env example_flags example_producer example_params 5, Inr ())"
proof -
  have nz: "epochs_between_evals example_flags \<noteq> 0"
    by (simp add: example_flags_def)
  have loc: "snd (run_ncf_data example_env example_flags (parse_flags example_env example_flags)) =
      Inr (example_producer, 6040, 3706, 5, 2)"
    by (simp add: example_data)
  have p: "setitem (setitem (parse_flags example_env example_flags) ''num_users'' 6040)
      ''num_items'' 3706 = example_params"
    by (simp add: example_env_def example_flags_def example_parse_flags_def example_params_def)
  have n: "snd (attr_floordiv ''train_batches_per_epoch'' (train_batches_per_epoch example_producer)
      (parse_flags example_env example_flags)) = Inr 5"
    by (simp add: attr_floordiv_eq example_env_def example_parse_flags_def example_producer_def)
  show ?thesis
    using run_ncf_late [OF nz loc refl] by (simp add: p n)
qed

lemma example_fit_call:
  "Fit example_model example_dataset 2 5 [] 0 \<in> set (fst (run_ncf example_env example_flags))"
  by (simp add: example_run fit_calls_def example_model_def example_dataset_def)
     (simp add: example_flags_def)

lemma example_compile_call:
  "Compile example_model (softmax_crossentropy_with_logits example_flags)
     (GetOptimizer example_params) [''accuracy''] None
   \<in> set (fst (run_ncf example_env example_flags))"
  by (simp add: example_run model_calls_def example_model_def)

lemma odd_run: "run_ncf odd_env example_flags = (setup_calls example_flags, Inl AssertionError)"
proof -
  have "snd (run_ncf_data odd_env example_flags (parse_flags odd_env example_flags)) =
      Inl AssertionError"
    by (simp add: run_ncf_data_def odd_env_def example_env_def example_flags_def
          example_parse_flags_def odd_producer_def attr_floordiv_eq attr_mod_eq py_assert_def
          ret_def lift_def)
  moreover have "epochs_between_evals example_flags \<noteq> 0"
    by (simp add: example_flags_def)
  ultimately show ?thesis
    by (simp add: run_ncf_early)
qed

lemma synthetic_data:
  "run_ncf_data example_env synthetic_flags params = ([], Inr (example_dummy, 6040, 3706, 2000, 2000))"
  by (simp add: run_ncf_data_def synthetic_flags_def example_flags_def example_env_def getitem_def
        ret_def)

subsection \<open>The claims\<close>

text \<open>C1 (fails on the code). The claim: every run of \<^verbatim>\<open>run_ncf\<close> evaluates the trained
  model after the training loop. The calls of the example run, in order: the last call into
  the framework is \<^verbatim>\<open>keras_model.fit\<close>, then the run prints and returns.\<close>

theorem run_ncf_returns_after_fit:
  "snd (run_ncf example_env example_flags) = Inr () \<and>
   map event_name (fst (run_ncf example_env example_flags)) =
     [''movielens.download'', ''np.random.seed'', ''producer.start'',
      ''model_helpers.apply_clean'', ''keras_model.summary'', ''tf.logging.info'',
      ''keras_model.compile'', ''print'', ''print'', ''keras_model.fit'', ''print'']"
  by (simp add: example_run setup_calls_def model_calls_def fit_calls_def)
     (simp add: example_flags_def)

text \<open>C2 (as stated, false). The claim: the strategy returned by
  \<^verbatim>\<open>get_distribution_strategy(num_gpus=1)\<close> is the one the model is compiled under. In the
  example run the one compile call has \<^verbatim>\<open>distribute=None\<close>.\<close>

theorem run_ncf_strategy_unused_counterexample:
  "snd (run_ncf example_env example_flags) = Inr () \<and>
   concat (map compile_distribute (fst (run_ncf example_env example_flags))) = [None] \<and>
   concat (map compile_distribute (fst (run_ncf example_env example_flags)))
     \<noteq> [Some (GetDistributionStrategy 1)]"
  by (simp add: example_run setup_calls_def model_calls_def fit_calls_def)
     (simp add: example_flags_def)

text \<open>C2 (amended). Every compile call of every run has \<^verbatim>\<open>distribute=None\<close>, and a run
  that completes makes exactly one: the strategy of line 142 is passed to neither compile
  nor fit.\<close>

theorem run_ncf_compile_distribute_none:
  "(Compile m l opt ms distr \<in> set (fst (run_ncf E F)) \<longrightarrow> distr = None) \<and>
   (snd (run_ncf E F) = Inr () \<longrightarrow>
      concat (map compile_distribute (fst (run_ncf E F))) = [None])"
  by (rule run_ncf_outcomes [of E F])
     (auto simp: setup_calls_def model_calls_def fit_calls_def split: option.splits)

theorem run_ncf_compile_distribute_none_witness:
  "Compile example_model (softmax_crossentropy_with_logits example_flags)
     (GetOptimizer example_params) [''accuracy''] None
     \<in> set (fst (run_ncf example_env example_flags)) \<and>
   snd (run_ncf example_env example_flags) = Inr () \<and>
   concat (map compile_distribute (fst (run_ncf example_env example_flags))) = [None]"
proof -
  have ok: "snd (run_ncf example_env example_flags) = Inr ()"
    by (simp add: example_run)
  from run_ncf_compile_distribute_none [of example_model
      "softmax_crossentropy_with_logits example_flags" "GetOptimizer example_params"
      "[''accuracy'']" None example_env example_flags] ok
  have "concat (map compile_distribute (fst (run_ncf example_env example_flags))) = [None]"
    by blast
  with ok example_compile_call show ?thesis by blast
qed

text \<open>C3 (as stated, false). The claim: every run calls \<^verbatim>\<open>keras_model.fit\<close> exactly once.
  With three training batches per epoch and two batches per step the assertion of line 107
  fails and \<^verbatim>\<open>fit\<close> is never called.\<close>

theorem run_ncf_fit_not_called_counterexample:
  "snd (run_ncf odd_env example_flags) = Inl AssertionError \<and>
   filter is_fit (fst (run_ncf odd_env example_flags)) = []"
  by (simp add: odd_run setup_calls_def) (simp add: example_flags_def)

text \<open>C3 (amended). A run that completes calls \<^verbatim>\<open>fit\<close> exactly once, with
  \<^verbatim>\<open>epochs=FLAGS.train_epochs\<close>, \<^verbatim>\<open>steps_per_epoch\<close> the floor quotient of the producer's
  \<^verbatim>\<open>train_batches_per_epoch\<close> by \<^verbatim>\<open>params["batches_per_step"]\<close>, no callbacks and
  \<^verbatim>\<open>verbose=0\<close>.\<close>

theorem run_ncf_fit_once:
  "snd (run_ncf E F) = Inr () \<longrightarrow>
      (\<exists>producer nu ni n1 n2 tb bps m d.
         snd (run_ncf_data E F (parse_flags E F)) = Inr (producer, nu, ni, n1, n2) \<and>
         train_batches_per_epoch producer = Some tb \<and>
         map_of (parse_flags E F) ''batches_per_step'' = Some bps \<and> bps \<noteq> 0 \<and>
         filter is_fit (fst (run_ncf E F)) = [Fit m d (train_epochs F) (tb div bps) [] 0])"
proof (rule run_ncf_outcomes [of E F])
  fix e
  assume "run_ncf E F = (setup_calls F, Inl e)"
  then show ?thesis
    by simp
next
  fix producer nu ni n1 n2 e
  assume "run_ncf E F =
    (setup_calls F @ model_calls E F producer
       (setitem (setitem (parse_flags E F) ''num_users'' nu) ''num_items'' ni), Inl e)"
  then show ?thesis
    by simp
next
  fix producer nu ni n1 n2 tb bps
  assume "snd (run_ncf_data E F (parse_flags E F)) = Inr (producer, nu, ni, n1, n2)"
    "train_batches_per_epoch producer = Some tb"
    "map_of (parse_flags E F) ''batches_per_step'' = Some bps" "bps \<noteq> 0"
    "run_ncf E F =
       (setup_calls F
        @ model_calls E F producer
            (setitem (setitem (parse_flags E F) ''num_users'' nu) ''num_items'' ni)
        @ fit_calls E F producer
            (setitem (setitem (parse_flags E F) ''num_users'' nu) ''num_items'' ni)
            (tb div bps), Inr ())"
  then show ?thesis
    by (auto simp: setup_calls_def model_calls_def fit_calls_def split: option.splits)
qed

theorem run_ncf_fit_once_witness:
  "snd (run_ncf example_env example_flags) = Inr () \<and>
   (\<exists>m d. filter is_fit (fst (run_ncf example_env example_flags)) = [Fit m d 2 5 [] 0])"
proof -
  have ok: "snd (run_ncf example_env example_flags) = Inr ()"
    by (simp add: example_run)
  with run_ncf_fit_once [of example_env example_flags]
  obtain producer nu ni n1 n2 tb bps m d where
    loc: "snd (run_ncf_data example_env example_flags (parse_flags example_env example_flags)) =
       Inr (producer, nu, ni, n1, n2)"
    and tb: "train_batches_per_epoch producer = Some tb"
    and bps: "map_of (parse_flags example_env example_flags) ''batches_per_step'' = Some bps"
    and fit: "filter is_fit (fst (run_ncf example_env example_flags)) =
       [Fit m d (train_epochs example_flags) (tb div bps) [] 0]"
    by blast
  from loc have "producer = example_producer"
    by (simp add: example_data)
  with tb have "tb = 10"
    by (simp add: example_producer_def)
  moreover from bps have "bps = 2"
    by (simp add: example_env_def example_parse_flags_def)
  moreover have "train_epochs example_flags = 2"
    by (simp add: example_flags_def)
  ultimately have "filter is_fit (fst (run_ncf example_env example_flags)) = [Fit m d 2 5 [] 0]"
    using fit by simp
  with ok show ?thesis by blast
qed

text \<open>C4. The dataset of every \<^verbatim>\<open>fit\<close> call is
  \<^verbatim>\<open>make_input_fn(producer=producer, is_training=True, use_tpu=False)(params).repeat(FLAGS.train_epochs)\<close>,
  with the producer of lines 89--108 and \<^verbatim>\<open>params\<close> as completed in line 111, and that call
  is the only \<^verbatim>\<open>fit\<close> call of the run.\<close>

theorem run_ncf_fit_dataset:
  "Fit m d ep st cb vb \<in> set (fst (run_ncf E F)) \<Longrightarrow>
   \<exists>producer nu ni n1 n2.
      snd (run_ncf_data E F (parse_flags E F)) = Inr (producer, nu, ni, n1, n2) \<and>
      d = Repeat (ApplyInputFn (MakeInputFn producer True False)
                   (setitem (setitem (parse_flags E F) ''num_users'' nu) ''num_items'' ni))
            (train_epochs F) \<and>
      filter is_fit (fst (run_ncf E F)) = [Fit m d ep st cb vb]"
  by (rule run_ncf_outcomes [of E F])
     (auto simp: setup_calls_def model_calls_def fit_calls_def split: option.splits if_splits)

theorem run_ncf_fit_dataset_witness:
  "example_dataset =
     Repeat (ApplyInputFn (MakeInputFn example_producer True False)
              (setitem (setitem (parse_flags example_env example_flags) ''num_users'' 6040)
                 ''num_items'' 3706))
       (train_epochs example_flags) \<and>
   filter is_fit (fst (run_ncf example_env example_flags)) =
     [Fit example_model example_dataset 2 5 [] 0]"
  using run_ncf_fit_dataset [OF example_fit_call]
  by (auto simp: example_data)

text \<open>C5. The model of every \<^verbatim>\<open>fit\<close> call is \<^verbatim>\<open>_logitfy\<close> applied to the two input
  layers and to \<^verbatim>\<open>neumf_model.construct_model_keras(user_input, item_input, params)\<close>; the
  inputs are int32 layers of shape \<open>(1,)\<close> with batch size \<^verbatim>\<open>FLAGS.batch_size\<close>; the run
  compiles that model, once, with the optimizer \<^verbatim>\<open>neumf_model.get_optimizer(params)\<close>.\<close>

theorem run_ncf_model_is_logitfy_neumf:
  "Fit m d ep st cb vb \<in> set (fst (run_ncf E F)) \<Longrightarrow>
   \<exists>producer nu ni n1 n2.
      snd (run_ncf_data E F (parse_flags E F)) = Inr (producer, nu, ni, n1, n2) \<and>
      (let params = setitem (setitem (parse_flags E F) ''num_users'' nu) ''num_items'' ni;
           user_input = Input [1] (batch_size F) ''user_id'' Int32;
           item_input = Input [1] (batch_size F) ''item_id'' Int32
       in m = logitfy (output_dim E) [user_input, item_input]
                (ConstructModelKeras user_input item_input params) \<and>
          filter is_compile (fst (run_ncf E F)) =
            [Compile m (softmax_crossentropy_with_logits F) (GetOptimizer params)
               [''accuracy''] None])"
  by (rule run_ncf_outcomes [of E F])
     (auto simp: setup_calls_def model_calls_def fit_calls_def built_model_def Let_def
        split: option.splits if_splits)

theorem run_ncf_model_is_logitfy_neumf_witness:
  "example_model =
     logitfy (output_dim example_env)
       [Input [1] 4 ''user_id'' Int32, Input [1] 4 ''item_id'' Int32]
       (ConstructModelKeras (Input [1] 4 ''user_id'' Int32) (Input [1] 4 ''item_id'' Int32)
          example_params) \<and>
   filter is_compile (fst (run_ncf example_env example_flags)) =
     [Compile example_model (softmax_crossentropy_with_logits example_flags)
        (GetOptimizer example_params) [''accuracy''] None]"
proof -
  have p: "setitem (setitem (parse_flags example_env example_flags) ''num_users'' 6040)
      ''num_items'' 3706 = example_params"
    by (simp add: example_env_def example_flags_def example_parse_flags_def example_params_def)
  have b: "batch_size example_flags = 4"
    by (simp add: example_flags_def)
  from run_ncf_model_is_logitfy_neumf [OF example_fit_call] show ?thesis
    by (auto simp: example_data Let_def p b)
qed

text \<open>C6. The loss the model is compiled with is, on every pair of tensors,
  \<^verbatim>\<open>tf.losses.sparse_softmax_cross_entropy\<close> with labels \<^verbatim>\<open>y_true\<close> cast to int32 and
  reshaped to \<^verbatim>\<open>[FLAGS.batch_size]\<close> and logits \<^verbatim>\<open>y_pred\<close> reshaped to
  \<^verbatim>\<open>[FLAGS.batch_size, 2]\<close>.\<close>

theorem loss_is_sparse_softmax_cross_entropy:
  "softmax_crossentropy_with_logits F y_true y_pred =
     SparseSoftmaxCrossEntropy (TfReshape (TfCast y_true Int32) [batch_size F])
       (TfReshape y_pred [batch_size F, 2]) \<and>
   (Compile m l opt ms distr \<in> set (fst (run_ncf E F)) \<longrightarrow>
      l y_true y_pred =
        SparseSoftmaxCrossEntropy (TfReshape (TfCast y_true Int32) [batch_size F])
          (TfReshape y_pred [batch_size F, 2]))"
  by (rule run_ncf_outcomes [of E F])
     (auto simp: setup_calls_def model_calls_def fit_calls_def
        softmax_crossentropy_with_logits_def split: option.splits if_splits)

theorem loss_is_sparse_softmax_cross_entropy_witness:
  "Compile example_model (softmax_crossentropy_with_logits example_flags)
     (GetOptimizer example_params) [''accuracy''] None
     \<in> set (fst (run_ncf example_env example_flags)) \<and>
   softmax_crossentropy_with_logits example_flags (Tensor ''y_true'') (Tensor ''y_pred'') =
     SparseSoftmaxCrossEntropy (TfReshape (TfCast (Tensor ''y_true'') Int32) [4])
       (TfReshape (Tensor ''y_pred'') [4, 2])"
proof -
  have b: "batch_size example_flags = 4"
    by (simp add: example_flags_def)
  from loss_is_sparse_softmax_cross_entropy [of example_flags "Tensor ''y_true''"
      "Tensor ''y_pred''" example_model "softmax_crossentropy_with_logits example_flags"
      "GetOptimizer example_params" "[''accuracy'']" None example_env] example_compile_call
  show ?thesis
    by (simp add: b)
qed






text \<open>C10. \<^verbatim>\<open>movielens.download\<close> is called, once and first, exactly when
  \<^verbatim>\<open>FLAGS.download_if_missing\<close> holds and \<^verbatim>\<open>FLAGS.use_synthetic_data\<close> does not. With
  synthetic data, lines 89--94 either raise KeyError (the dataset is not a key of the table)
  or leave the producer \<^verbatim>\<open>DummyConstructor()\<close>, the table's pair for the dataset and both
  step counts equal to \<^verbatim>\<open>SYNTHETIC_BATCHES_PER_EPOCH\<close>; no assertion is evaluated.\<close>

theorem run_ncf_download_and_synthetic:
  "filter is_download (fst (run_ncf E F)) =
     (if download_if_missing F \<and> \<not> use_synthetic_data F
      then [Download (dataset F) (data_dir F)] else []) \<and>
   (use_synthetic_data F \<longrightarrow>
      run_ncf_data E F params =
        (case map_of (DATASET_TO_NUM_USERS_AND_ITEMS E) (dataset F) of
           None \<Rightarrow> ([], Inl (KeyError (dataset F)))
         | Some (num_users, num_items) \<Rightarrow>
             ([], Inr (DummyConstructor E, num_users, num_items,
                       SYNTHETIC_BATCHES_PER_EPOCH E, SYNTHETIC_BATCHES_PER_EPOCH E))) \<and>
      snd (run_ncf_data E F params) \<noteq> Inl AssertionError)"
proof -
  have "filter is_download (fst (run_ncf E F)) =
     (if download_if_missing F \<and> \<not> use_synthetic_data F
      then [Download (dataset F) (data_dir F)] else [])"
    by (rule run_ncf_outcomes [of E F])
       (auto simp: setup_calls_def model_calls_def fit_calls_def split: option.splits)
  moreover have "use_synthetic_data F \<longrightarrow>
      run_ncf_data E F params =
        (case map_of (DATASET_TO_NUM_USERS_AND_ITEMS E) (dataset F) of
           None \<Rightarrow> ([], Inl (KeyError (dataset F)))
         | Some (num_users, num_items) \<Rightarrow>
             ([], Inr (DummyConstructor E, num_users, num_items,
                       SYNTHETIC_BATCHES_PER_EPOCH E, SYNTHETIC_BATCHES_PER_EPOCH E))) \<and>
      snd (run_ncf_data E F params) \<noteq> Inl AssertionError"
    by (auto simp: run_ncf_data_def getitem_def ret_def Let_def split: option.splits)
  ultimately show ?thesis by blast
qed

theorem run_ncf_download_and_synthetic_witness:
  "filter is_download (fst (run_ncf example_env example_flags)) =
     [Download ''ml-1m'' ''/tmp/movielens-data''] \<and>
   filter is_download (fst (run_ncf example_env synthetic_flags)) = [] \<and>
   run_ncf_data example_env synthetic_flags (parse_flags example_env synthetic_flags) =
     ([], Inr (example_dummy, 6040, 3706, 2000, 2000))"
proof -
  have s: "use_synthetic_data synthetic_flags"
    by (simp add: synthetic_flags_def)
  from run_ncf_download_and_synthetic [of example_env synthetic_flags
      "parse_flags example_env synthetic_flags"] s
  have "filter is_download (fst (run_ncf example_env synthetic_flags)) = [] \<and>
    run_ncf_data example_env synthetic_flags (parse_flags example_env synthetic_flags) =
      ([], Inr (example_dummy, 6040, 3706, 2000, 2000))"
    by (simp add: synthetic_flags_def example_flags_def example_env_def)
  moreover from run_ncf_download_and_synthetic [of example_env example_flags]
  have "filter is_download (fst (run_ncf example_env example_flags)) =
     [Download ''ml-1m'' ''/tmp/movielens-data'']"
    by (simp add: example_flags_def)
  ultimately show ?thesis by blast
qed

end
